theory Spec2Isabelle
  imports Main
begin

section \<open>HealNav: the predict-priority edge function\<close>

text \<open>
  A shallow embedding of \<^verbatim>\<open>supabase/functions/predict-priority/index.ts\<close>: the
  validation schema \<^verbatim>\<open>patientSchema\<close>, the scoring function \<^verbatim>\<open>predictPriority\<close>,
  the message functions \<^verbatim>\<open>getActionMessage\<close> and \<^verbatim>\<open>getNotificationMessage\<close>, the
  error mapping \<^verbatim>\<open>mapErrorToSafeResponse\<close> and the request handler passed to
  \<^verbatim>\<open>serve\<close>.

  Numbers that pass the schema are integers far below \<open>2^53\<close>, so JavaScript's
  numbers are modelled as \<open>int\<close>. Strings are \<open>string\<close> (lists of 8-bit characters);
  the one character of the program's literals outside ASCII, the en dash of the
  signature line, is written as its three UTF-8 bytes.
\<close>

subsection \<open>Data model\<close>

text \<open>The string-literal union types of the repository's type declarations.\<close>

datatype PriorityLevel = PLow | PMedium | PHigh

datatype PainLevel = Mild | Moderate | Severe

datatype SeverityLevel = SLow | SMedium | SHigh | SCritical

text \<open>
  \<^verbatim>\<open>PatientInput = z.infer<typeof patientSchema>\<close>: the value the handler gives to
  \<^verbatim>\<open>predictPriority\<close>. \<^verbatim>\<open>existing_disease\<close> is \<^verbatim>\<open>string | null\<close>.
\<close>

record PatientInput =
  age :: int
  gender :: string
  chest_pain :: bool
  breathlessness :: bool
  fever :: bool
  pain_level :: PainLevel
  symptom_duration_days :: int
  severity_level :: SeverityLevel
  existing_disease :: "string option"

subsection \<open>The validation schema\<close>

text \<open>
  The ASCII characters matched by \<^verbatim>\<open>\s\<close> and removed by \<^verbatim>\<open>trim()\<close>: tab, line
  feed, vertical tab, form feed, carriage return and space. The white space outside
  ASCII that JavaScript also counts is not modelled.
\<close>

definition is_space :: "char \<Rightarrow> bool" where
  "is_space c = (of_char c \<in> {9, 10, 11, 12, 13, 32 :: nat})"

definition is_letter :: "char \<Rightarrow> bool" where
  "is_letter c =
     ((65 \<le> (of_char c :: nat) \<and> (of_char c :: nat) \<le> 90) \<or>
      (97 \<le> (of_char c :: nat) \<and> (of_char c :: nat) \<le> 122))"

definition trim :: "string \<Rightarrow> string" where
  "trim s = rev (dropWhile is_space (rev (dropWhile is_space s)))"

text \<open>The transform of the schema: \<^verbatim>\<open>val => val?.trim() || null\<close>.\<close>

definition normalize_disease :: "string option \<Rightarrow> string option" where
  "normalize_disease val =
     (case val of
        None \<Rightarrow> None
      | Some s \<Rightarrow> (if trim s = [] then None else Some (trim s)))"

text \<open>
  A report is valid when it is a value the schema can produce: the numeric ranges, the
  gender format \<^verbatim>\<open>/^[a-zA-Z\s]+$/\<close> with 1 to 20 characters, and an
  \<^verbatim>\<open>existing_disease\<close> that is \<^verbatim>\<open>null\<close> or a non-empty trimmed string of at most
  100 characters. The enumerations and the booleans are valid by their types.
\<close>

definition valid_disease :: "string option \<Rightarrow> bool" where
  "valid_disease v =
     (case v of
        None \<Rightarrow> True
      | Some s \<Rightarrow> s \<noteq> [] \<and> trim s = s \<and> length s \<le> 100)"

definition valid_report :: "PatientInput \<Rightarrow> bool" where
  "valid_report d =
     (0 \<le> age d \<and> age d \<le> 150 \<and>
      1 \<le> length (gender d) \<and> length (gender d) \<le> 20 \<and>
      list_all (\<lambda>c. is_letter c \<or> is_space c) (gender d) \<and>
      0 \<le> symptom_duration_days d \<and> symptom_duration_days d \<le> 365 \<and>
      valid_disease (existing_disease d))"

subsection \<open>predictPriority\<close>

text \<open>
  The function accumulates the local variable \<^verbatim>\<open>score\<close> through six blocks and then
  compares it with the two thresholds. Each block is modelled as a function from the
  score before the block to the score after it.
\<close>

definition age_factor :: "PatientInput \<Rightarrow> int \<Rightarrow> int" where
  "age_factor d score =
     (if age d \<ge> 70 then score + 25
      else if age d \<ge> 50 then score + 15
      else if age d \<ge> 30 then score + 5
      else score)"

definition symptom_factor :: "PatientInput \<Rightarrow> int \<Rightarrow> int" where
  "symptom_factor d score =
     (let score = (if chest_pain d then score + 30 else score);
          score = (if breathlessness d then score + 25 else score);
          score = (if fever d then score + 10 else score)
      in score)"

definition pain_factor :: "PatientInput \<Rightarrow> int \<Rightarrow> int" where
  "pain_factor d score =
     (if pain_level d = Severe then score + 25
      else if pain_level d = Moderate then score + 15
      else score + 5)"

definition severity_factor :: "PatientInput \<Rightarrow> int \<Rightarrow> int" where
  "severity_factor d score =
     (if severity_level d = SCritical then score + 35
      else if severity_level d = SHigh then score + 25
      else if severity_level d = SMedium then score + 15
      else score + 5)"

text \<open>JavaScript's truthiness of a \<^verbatim>\<open>string | null\<close>: neither \<^verbatim>\<open>null\<close> nor empty.\<close>

definition truthy :: "string option \<Rightarrow> bool" where
  "truthy v = (case v of None \<Rightarrow> False | Some s \<Rightarrow> s \<noteq> [])"

definition disease_factor :: "PatientInput \<Rightarrow> int \<Rightarrow> int" where
  "disease_factor d score =
     (if truthy (existing_disease d) \<and> existing_disease d \<noteq> Some ''None'' then
        (if existing_disease d = Some ''Heart Disease'' then score + 20
         else if existing_disease d = Some ''Diabetes'' then score + 15
         else if existing_disease d = Some ''Hypertension'' then score + 15
         else if existing_disease d = Some ''Asthma'' then score + 10
         else score + 5)
      else score)"

definition duration_factor :: "PatientInput \<Rightarrow> int \<Rightarrow> int" where
  "duration_factor d score =
     (if symptom_duration_days d \<le> 1 then score + 10
      else if symptom_duration_days d \<le> 3 then score + 5
      else score)"

text \<open>The value of \<^verbatim>\<open>score\<close> when the thresholds are tested.\<close>

definition score_total :: "PatientInput \<Rightarrow> int" where
  "score_total d =
     (let score = 0;
          score = age_factor d score;
          score = symptom_factor d score;
          score = pain_factor d score;
          score = severity_factor d score;
          score = disease_factor d score;
          score = duration_factor d score
      in score)"

text \<open>The last three lines of the function: the bucketing of the score.\<close>

definition bucket :: "int \<Rightarrow> PriorityLevel" where
  "bucket score =
     (if score \<ge> 75 then PHigh
      else if score \<ge> 45 then PMedium
      else PLow)"

definition predictPriority :: "PatientInput \<Rightarrow> PriorityLevel" where
  "predictPriority d = bucket (score_total d)"

subsection \<open>Messages\<close>

fun getActionMessage :: "PriorityLevel \<Rightarrow> string" where
  "getActionMessage PHigh = ''Proceed to Emergency Ward immediately''"
| "getActionMessage PMedium = ''Consult a doctor today''"
| "getActionMessage PLow = ''OPD visit can be scheduled later''"

text \<open>The string each priority value is at run time.\<close>

fun priority_string :: "PriorityLevel \<Rightarrow> string" where
  "priority_string PLow = ''low''"
| "priority_string PMedium = ''medium''"
| "priority_string PHigh = ''high''"

text \<open>
  \<^verbatim>\<open>toUpperCase\<close> on the letters a to z; the program applies it to the three
  priority strings only.
\<close>

definition toUpperCase :: "string \<Rightarrow> string" where
  "toUpperCase s =
     map (\<lambda>c. if 97 \<le> (of_char c :: nat) \<and> (of_char c :: nat) \<le> 122
              then char_of (of_char c - 32 :: nat) else c) s"

text \<open>The en dash (U+2013) that opens the signature line, in UTF-8.\<close>

definition en_dash :: string where
  "en_dash = [CHR 0xE2, CHR 0x80, CHR 0x93]"

definition getNotificationMessage :: "PriorityLevel \<Rightarrow> string \<Rightarrow> string" where
  "getNotificationMessage priority tokenNumber =
     (let priorityText = toUpperCase (priority_string priority);
          action = getActionMessage priority
      in ''Dear Patient,\<newline>\<newline>Your condition has been assessed as '' @ priorityText
         @ '' priority.\<newline>\<newline>Token Number: '' @ tokenNumber
         @ ''\<newline>\<newline>'' @ action
         @ ''.\<newline>\<newline>Thank you for using HealNav.\<newline>\<newline>'' @ en_dash
         @ '' HealNav - Smart Care Patient Priority System'')"

subsection \<open>Error mapping\<close>

text \<open>
  A caught value, as far as \<^verbatim>\<open>mapErrorToSafeResponse\<close> looks at it: an instance of
  \<^verbatim>\<open>z.ZodError\<close>; any other non-null object, with the value of its \<^verbatim>\<open>code\<close>
  property when it has one; or a value that is no object (a primitive, \<^verbatim>\<open>null\<close>,
  \<^verbatim>\<open>undefined\<close>). The string carried by each stands for everything else the value
  holds: its message, its stack trace, the details of a database error.
\<close>

datatype code_value = CodeString string | CodeOther

datatype thrown =
    ZodError string
  | ErrorObject "code_value option" string
  | NonObject string

record safe_response =
  message :: string
  status :: nat

definition mapErrorToSafeResponse :: "thrown \<Rightarrow> safe_response" where
  "mapErrorToSafeResponse error =
     (case error of
        ZodError _ \<Rightarrow>
          \<lparr>message = ''Invalid input data provided. Please check your submission.'',
           status = 400\<rparr>
      | ErrorObject (Some code) _ \<Rightarrow>
          (if code = CodeString ''23505'' then
             \<lparr>message = ''A record with this information already exists'', status = 409\<rparr>
           else if code = CodeString ''23503'' then
             \<lparr>message = ''Referenced record not found'', status = 400\<rparr>
           else
             \<lparr>message = ''Unable to save patient information. Please try again.'',
              status = 500\<rparr>)
      | _ \<Rightarrow>
          \<lparr>message = ''An error occurred while processing your request'', status = 500\<rparr>)"

subsection \<open>The request handler\<close>

text \<open>
  The handler's collaborators are outside the program, so their results are parameters:
  whether the request is a CORS preflight; \<open>parsed\<close>, which is \<open>Inl e\<close> when reading
  the request threw \<open>e\<close>, \<open>Inr None\<close> when \<^verbatim>\<open>safeParse\<close> failed and
  \<open>Inr (Some d)\<close> when it produced \<open>d\<close>; \<open>token\<close>, the error or the data of the
  \<^verbatim>\<open>generate_token_number\<close> call; \<open>inserted\<close>, the error of the insertion or the
  \<^verbatim>\<open>id\<close> of the stored row. The body of a success response carries \<^verbatim>\<open>priority\<close>,
  \<^verbatim>\<open>action\<close>, \<^verbatim>\<open>message\<close>, \<^verbatim>\<open>token_number\<close> and \<^verbatim>\<open>patient_id\<close>, in this order.
\<close>

datatype response_body =
    NoBody
  | ErrorBody string
  | DecisionBody PriorityLevel string string string string

record response =
  http_status :: nat
  body :: response_body

definition catch_response :: "thrown \<Rightarrow> response" where
  "catch_response error =
     (let errorResponse = mapErrorToSafeResponse error
      in \<lparr>http_status = status errorResponse, body = ErrorBody (message errorResponse)\<rparr>)"

definition serve ::
  "bool \<Rightarrow> thrown + PatientInput option \<Rightarrow> thrown + string \<Rightarrow> thrown + string \<Rightarrow> response"
where
  "serve is_options parsed token inserted =
     (if is_options then \<lparr>http_status = 200, body = NoBody\<rparr>
      else
        (case parsed of
           Inl error \<Rightarrow> catch_response error
         | Inr None \<Rightarrow>
             \<lparr>http_status = 400,
              body = ErrorBody
                ''Invalid input data. Please check your submission and try again.''\<rparr>
         | Inr (Some patientData) \<Rightarrow>
             (let priority = predictPriority patientData in
              case token of
                Inl tokenError \<Rightarrow> catch_response tokenError
              | Inr tokenNumber \<Rightarrow>
                  (case inserted of
                     Inl insertError \<Rightarrow> catch_response insertError
                   | Inr patient_id \<Rightarrow>
                       \<lparr>http_status = 200,
                        body = DecisionBody priority (getActionMessage priority)
                                 (getNotificationMessage priority tokenNumber)
                                 tokenNumber patient_id\<rparr>))))"

subsection \<open>The scoring rule as the specification words it\<close>

text \<open>
  The additive rule of the specification, one contribution per factor, and its
  bucketing. These definitions follow the specification's tables; they are compared
  with \<open>score_total\<close> and \<open>predictPriority\<close> below.
\<close>

definition spec_age :: "int \<Rightarrow> int" where
  "spec_age a = (if a \<ge> 70 then 25 else if a \<ge> 50 then 15 else if a \<ge> 30 then 5 else 0)"

definition spec_flag :: "bool \<Rightarrow> int \<Rightarrow> int" where
  "spec_flag b points = (if b then points else 0)"

definition spec_pain :: "PainLevel \<Rightarrow> int" where
  "spec_pain p = (if p = Severe then 25 else if p = Moderate then 15 else 5)"

definition spec_severity :: "SeverityLevel \<Rightarrow> int" where
  "spec_severity s =
     (if s = SCritical then 35 else if s = SHigh then 25 else if s = SMedium then 15 else 5)"

definition spec_disease :: "string option \<Rightarrow> int" where
  "spec_disease v =
     (case v of
        None \<Rightarrow> 0
      | Some s \<Rightarrow>
          (if s = ''None'' then 0
           else if s = ''Heart Disease'' then 20
           else if s = ''Diabetes'' then 15
           else if s = ''Hypertension'' then 15
           else if s = ''Asthma'' then 10
           else 5))"

definition spec_duration :: "int \<Rightarrow> int" where
  "spec_duration n = (if n \<le> 1 then 10 else if n \<le> 3 then 5 else 0)"

definition spec_total :: "PatientInput \<Rightarrow> int" where
  "spec_total d =
     spec_age (age d)
     + spec_flag (chest_pain d) 30
     + spec_flag (breathlessness d) 25
     + spec_flag (fever d) 10
     + spec_pain (pain_level d)
     + spec_severity (severity_level d)
     + spec_disease (existing_disease d)
     + spec_duration (symptom_duration_days d)"

definition spec_bucket :: "int \<Rightarrow> PriorityLevel" where
  "spec_bucket t =
     (if t \<ge> 75 then PHigh
      else if 45 \<le> t \<and> t < 75 then PMedium
      else PLow)"

definition spec_score :: "PatientInput \<Rightarrow> PriorityLevel" where
  "spec_score d = spec_bucket (spec_total d)"

subsection \<open>Orders on priorities and factor values\<close>

text \<open>The order low < medium < high.\<close>

fun priority_rank :: "PriorityLevel \<Rightarrow> nat" where
  "priority_rank PLow = 0"
| "priority_rank PMedium = 1"
| "priority_rank PHigh = 2"

text \<open>The declaration orders mild, moderate, severe and low, medium, high, critical.\<close>

fun pain_rank :: "PainLevel \<Rightarrow> nat" where
  "pain_rank Mild = 0"
| "pain_rank Moderate = 1"
| "pain_rank Severe = 2"

fun severity_rank :: "SeverityLevel \<Rightarrow> nat" where
  "severity_rank SLow = 0"
| "severity_rank SMedium = 1"
| "severity_rank SHigh = 2"
| "severity_rank SCritical = 3"

text \<open>
  \<open>raised_by_value d d'\<close>: the report \<open>d'\<close> is \<open>d\<close> with one field replaced, all
  other fields fixed, and the replaced field has the same or a higher value: a greater
  age, a symptom added, a pain or severity level later in its declaration, or an
  existing disease where \<open>d\<close> has none (\<^verbatim>\<open>null\<close> or "None").
\<close>

definition raised_by_value :: "PatientInput \<Rightarrow> PatientInput \<Rightarrow> bool" where
  "raised_by_value d d' =
     ((d' = d\<lparr>age := age d'\<rparr> \<and> age d \<le> age d') \<or>
      (d' = d\<lparr>chest_pain := chest_pain d'\<rparr> \<and> chest_pain d \<le> chest_pain d') \<or>
      (d' = d\<lparr>breathlessness := breathlessness d'\<rparr>
         \<and> breathlessness d \<le> breathlessness d') \<or>
      (d' = d\<lparr>fever := fever d'\<rparr> \<and> fever d \<le> fever d') \<or>
      (d' = d\<lparr>pain_level := pain_level d'\<rparr>
         \<and> pain_rank (pain_level d) \<le> pain_rank (pain_level d')) \<or>
      (d' = d\<lparr>severity_level := severity_level d'\<rparr>
         \<and> severity_rank (severity_level d) \<le> severity_rank (severity_level d')) \<or>
      (d' = d\<lparr>existing_disease := existing_disease d'\<rparr>
         \<and> (existing_disease d = None \<or> existing_disease d = Some ''None'')))"

text \<open>
  \<open>longer_duration d d'\<close>: the report \<open>d'\<close> is \<open>d\<close> with a symptom duration of the
  same or a greater number of days, all other fields fixed.
\<close>

definition longer_duration :: "PatientInput \<Rightarrow> PatientInput \<Rightarrow> bool" where
  "longer_duration d d' =
     (d' = d\<lparr>symptom_duration_days := symptom_duration_days d'\<rparr>
      \<and> symptom_duration_days d \<le> symptom_duration_days d')"

subsection \<open>The message layout, line by line\<close>

definition join_lines :: "string list \<Rightarrow> string" where
  "join_lines ls =
     concat (case ls of [] \<Rightarrow> [] | l # rest \<Rightarrow> l # map (\<lambda>x. CHR 0x0A # x) rest)"

fun upper_name :: "PriorityLevel \<Rightarrow> string" where
  "upper_name PLow = ''LOW''"
| "upper_name PMedium = ''MEDIUM''"
| "upper_name PHigh = ''HIGH''"

definition notification_lines :: "PriorityLevel \<Rightarrow> string \<Rightarrow> string list" where
  "notification_lines priority token =
     [''Dear Patient,'',
      [],
      ''Your condition has been assessed as '' @ upper_name priority @ '' priority.'',
      [],
      ''Token Number: '' @ token,
      [],
      getActionMessage priority @ ''.'',
      [],
      ''Thank you for using HealNav.'',
      [],
      en_dash @ '' HealNav - Smart Care Patient Priority System'']"

subsection \<open>The generic messages\<close>

definition safe_messages :: "string set" where
  "safe_messages =
     {''Invalid input data provided. Please check your submission.'',
      ''A record with this information already exists'',
      ''Referenced record not found'',
      ''Unable to save patient information. Please try again.'',
      ''An error occurred while processing your request''}"

definition is_digit :: "char \<Rightarrow> bool" where
  "is_digit c = (48 \<le> (of_char c :: nat) \<and> (of_char c :: nat) \<le> 57)"

subsection \<open>Example reports\<close>

text \<open>
  The first two concrete scenarios of the specification, and a report in the top band
  of every factor.
\<close>

definition scenario1 :: PatientInput where
  "scenario1 =
     \<lparr>age = 75, gender = ''Male'', chest_pain = True, breathlessness = True, fever = False,
      pain_level = Severe, symptom_duration_days = 1, severity_level = SCritical,
      existing_disease = Some ''Heart Disease''\<rparr>"

definition scenario2 :: PatientInput where
  "scenario2 =
     \<lparr>age = 25, gender = ''Female'', chest_pain = False, breathlessness = False,
      fever = False, pain_level = Mild, symptom_duration_days = 10, severity_level = SLow,
      existing_disease = None\<rparr>"

definition top_report :: PatientInput where
  "top_report = scenario1\<lparr>fever := True\<rparr>"

text \<open>
  Two reports that differ in the symptom duration only: one day in the first, four
  days in the second.
\<close>

definition acute_report :: PatientInput where
  "acute_report =
     \<lparr>age = 70, gender = ''Female'', chest_pain = True, breathlessness = False,
      fever = False, pain_level = Mild, symptom_duration_days = 1, severity_level = SLow,
      existing_disease = None\<rparr>"

definition lingering_report :: PatientInput where
  "lingering_report =
     \<lparr>age = 70, gender = ''Female'', chest_pain = True, breathlessness = False,
      fever = False, pain_level = Mild, symptom_duration_days = 4, severity_level = SLow,
      existing_disease = None\<rparr>"

section \<open>Properties\<close>

subsection \<open>Each block adds its points to the score\<close>

lemma age_factor_shift: "age_factor d s = s + age_factor d 0"
  by (simp add: age_factor_def)

lemma symptom_factor_shift: "symptom_factor d s = s + symptom_factor d 0"
  by (simp add: symptom_factor_def Let_def)

lemma pain_factor_shift: "pain_factor d s = s + pain_factor d 0"
  by (simp add: pain_factor_def)

lemma severity_factor_shift: "severity_factor d s = s + severity_factor d 0"
  by (simp add: severity_factor_def)

lemma disease_factor_shift: "disease_factor d s = s + disease_factor d 0"
  by (simp add: disease_factor_def)

lemma duration_factor_shift: "duration_factor d s = s + duration_factor d 0"
  by (simp add: duration_factor_def)

lemma score_total_sum:
  "score_total d =
     age_factor d 0 + symptom_factor d 0 + pain_factor d 0 + severity_factor d 0
     + disease_factor d 0 + duration_factor d 0"
proof -
  have "score_total d =
      duration_factor d (disease_factor d (severity_factor d (pain_factor d
        (symptom_factor d (age_factor d 0)))))"
    by (simp add: score_total_def Let_def)
  also have "\<dots> = disease_factor d (severity_factor d (pain_factor d
        (symptom_factor d (age_factor d 0)))) + duration_factor d 0"
    by (rule duration_factor_shift)
  also have "disease_factor d (severity_factor d (pain_factor d
        (symptom_factor d (age_factor d 0))))
      = severity_factor d (pain_factor d (symptom_factor d (age_factor d 0)))
        + disease_factor d 0"
    by (rule disease_factor_shift)
  also have "severity_factor d (pain_factor d (symptom_factor d (age_factor d 0)))
      = pain_factor d (symptom_factor d (age_factor d 0)) + severity_factor d 0"
    by (rule severity_factor_shift)
  also have "pain_factor d (symptom_factor d (age_factor d 0))
      = symptom_factor d (age_factor d 0) + pain_factor d 0"
    by (rule pain_factor_shift)
  also have "symptom_factor d (age_factor d 0) = age_factor d 0 + symptom_factor d 0"
    by (rule symptom_factor_shift)
  finally show ?thesis by simp
qed

lemma score_total_disease:
  "score_total d = score_total (d\<lparr>existing_disease := None\<rparr>) + disease_factor d 0"
  by (simp add: score_total_sum age_factor_def symptom_factor_def pain_factor_def
      severity_factor_def duration_factor_def disease_factor_def truthy_def)

subsection \<open>The example reports\<close>

lemma valid_scenario1: "valid_report scenario1"
  by (simp add: scenario1_def valid_report_def valid_disease_def trim_def is_space_def
      is_letter_def)

lemma valid_scenario2: "valid_report scenario2"
  by (simp add: scenario2_def valid_report_def valid_disease_def trim_def is_space_def
      is_letter_def)

lemma valid_top_report: "valid_report top_report"
  using valid_scenario1 by (simp add: top_report_def valid_report_def)

lemma score_scenario1: "score_total scenario1 = 170"
  by (simp add: scenario1_def score_total_def age_factor_def symptom_factor_def
      pain_factor_def severity_factor_def disease_factor_def duration_factor_def truthy_def)

lemma score_scenario2: "score_total scenario2 = 10"
  by (simp add: scenario2_def score_total_def age_factor_def symptom_factor_def
      pain_factor_def severity_factor_def disease_factor_def duration_factor_def truthy_def)

lemma score_top_report: "score_total top_report = 180"
  by (simp add: top_report_def scenario1_def score_total_def age_factor_def
      symptom_factor_def pain_factor_def severity_factor_def disease_factor_def
      duration_factor_def truthy_def)

subsection \<open>The code computes the specified rule\<close>

lemma age_factor_spec: "age_factor d 0 = spec_age (age d)"
  by (simp add: age_factor_def spec_age_def)

lemma symptom_factor_spec:
  "symptom_factor d 0 =
     spec_flag (chest_pain d) 30 + spec_flag (breathlessness d) 25 + spec_flag (fever d) 10"
  by (simp add: symptom_factor_def spec_flag_def Let_def)

lemma pain_factor_spec: "pain_factor d 0 = spec_pain (pain_level d)"
  by (simp add: pain_factor_def spec_pain_def)

lemma severity_factor_spec: "severity_factor d 0 = spec_severity (severity_level d)"
  by (simp add: severity_factor_def spec_severity_def)

lemma disease_factor_spec:
  "existing_disease d \<noteq> Some [] \<Longrightarrow> disease_factor d 0 = spec_disease (existing_disease d)"
  by (cases "existing_disease d") (simp_all add: disease_factor_def spec_disease_def truthy_def)

lemma duration_factor_spec: "duration_factor d 0 = spec_duration (symptom_duration_days d)"
  by (simp add: duration_factor_def spec_duration_def)

lemma valid_disease_nonempty: "valid_report d \<Longrightarrow> existing_disease d \<noteq> Some []"
  by (auto simp: valid_report_def valid_disease_def)

lemma bucket_spec: "bucket s = spec_bucket s"
  by (simp add: bucket_def spec_bucket_def)

text \<open>
  C1. For every valid report, the score that \<^verbatim>\<open>predictPriority\<close> accumulates is the
  sum of the specified contributions (age, chest pain, breathlessness, fever, pain
  level, severity level, existing disease, symptom duration), and the priority it
  returns is the specified bucketing of that sum: high from 75, medium from 45 to 74,
  low below. The function has no error path: it returns one of the three priorities.
\<close>

theorem predictPriority_refines_spec:
  assumes "valid_report d"
  shows "score_total d = spec_total d \<and> predictPriority d = spec_score d
         \<and> predictPriority d \<in> {PLow, PMedium, PHigh}"
proof -
  have "score_total d = spec_total d"
    using valid_disease_nonempty [OF assms]
    by (simp add: score_total_sum spec_total_def age_factor_spec symptom_factor_spec
        pain_factor_spec severity_factor_spec disease_factor_spec duration_factor_spec)
  moreover have "predictPriority d \<in> {PLow, PMedium, PHigh}"
    by (cases "predictPriority d") simp_all
  ultimately show ?thesis
    by (simp add: predictPriority_def spec_score_def bucket_spec)
qed

theorem predictPriority_refines_spec_witness:
  "valid_report scenario1 \<and> score_total scenario1 = spec_total scenario1
   \<and> spec_total scenario1 = 170 \<and> predictPriority scenario1 = spec_score scenario1
   \<and> spec_score scenario1 = PHigh"
  using predictPriority_refines_spec [OF valid_scenario1] valid_scenario1 score_scenario1
  by (simp add: predictPriority_def bucket_def)

subsection \<open>Thresholds\<close>

text \<open>
  C2. The bucketing is exact at the thresholds: a score of 75 is high, 74 is medium,
  45 is medium and 44 is low.
\<close>

theorem bucket_thresholds:
  "bucket 75 = PHigh \<and> bucket 74 = PMedium \<and> bucket 45 = PMedium \<and> bucket 44 = PLow"
  by (simp add: bucket_def)

subsection \<open>Monotonicity\<close>

lemma age_factor_mono: "age d \<le> age d' \<Longrightarrow> age_factor d 0 \<le> age_factor d' 0"
  by (simp add: age_factor_def)

lemma symptom_factor_mono:
  "chest_pain d \<le> chest_pain d' \<Longrightarrow> breathlessness d \<le> breathlessness d' \<Longrightarrow>
   fever d \<le> fever d' \<Longrightarrow> symptom_factor d 0 \<le> symptom_factor d' 0"
  by (simp add: symptom_factor_def Let_def le_bool_def)

lemma pain_factor_mono:
  "pain_rank (pain_level d) \<le> pain_rank (pain_level d') \<Longrightarrow>
   pain_factor d 0 \<le> pain_factor d' 0"
  by (cases "pain_level d"; cases "pain_level d'") (simp_all add: pain_factor_def)

lemma severity_factor_mono:
  "severity_rank (severity_level d) \<le> severity_rank (severity_level d') \<Longrightarrow>
   severity_factor d 0 \<le> severity_factor d' 0"
  by (cases "severity_level d"; cases "severity_level d'") (simp_all add: severity_factor_def)

lemma disease_factor_nonneg: "0 \<le> disease_factor d 0"
  by (simp add: disease_factor_def)

lemma disease_factor_absent:
  "existing_disease d = None \<or> existing_disease d = Some ''None'' \<Longrightarrow> disease_factor d 0 = 0"
  by (auto simp: disease_factor_def truthy_def)

lemma disease_factor_added:
  assumes "existing_disease d = None \<or> existing_disease d = Some ''None''"
  shows "disease_factor d 0 \<le> disease_factor (d\<lparr>existing_disease := v\<rparr>) 0"
  using disease_factor_absent [OF assms] disease_factor_nonneg [of "d\<lparr>existing_disease := v\<rparr>"]
  by simp

lemma duration_factor_antimono:
  "symptom_duration_days d \<le> n \<Longrightarrow>
   duration_factor (d\<lparr>symptom_duration_days := n\<rparr>) 0 \<le> duration_factor d 0"
  by (simp add: duration_factor_def)

lemma score_total_mono:
  assumes "age d \<le> age d'"
    and "chest_pain d \<le> chest_pain d'"
    and "breathlessness d \<le> breathlessness d'"
    and "fever d \<le> fever d'"
    and "pain_rank (pain_level d) \<le> pain_rank (pain_level d')"
    and "severity_rank (severity_level d) \<le> severity_rank (severity_level d')"
    and "disease_factor d 0 \<le> disease_factor d' 0"
    and "duration_factor d 0 \<le> duration_factor d' 0"
  shows "score_total d \<le> score_total d'"
proof -
  note age_factor_mono [OF assms(1)]
  moreover note symptom_factor_mono [OF assms(2) assms(3) assms(4)]
  moreover note pain_factor_mono [OF assms(5)]
  moreover note severity_factor_mono [OF assms(6)]
  moreover note assms(7) assms(8)
  ultimately show ?thesis
    by (simp add: score_total_sum)
qed

lemma bucket_mono: "s \<le> t \<Longrightarrow> priority_rank (bucket s) \<le> priority_rank (bucket t)"
  by (simp add: bucket_def)

lemma raised_by_value_score:
  assumes "raised_by_value d d'"
  shows "score_total d \<le> score_total d'"
proof -
  have a: "\<And>v. age d \<le> v \<Longrightarrow> score_total d \<le> score_total (d\<lparr>age := v\<rparr>)"
    by (rule score_total_mono) (simp_all add: disease_factor_def duration_factor_def)
  have c: "\<And>v. chest_pain d \<le> v \<Longrightarrow> score_total d \<le> score_total (d\<lparr>chest_pain := v\<rparr>)"
    by (rule score_total_mono) (simp_all add: disease_factor_def duration_factor_def)
  have b: "\<And>v. breathlessness d \<le> v \<Longrightarrow>
      score_total d \<le> score_total (d\<lparr>breathlessness := v\<rparr>)"
    by (rule score_total_mono) (simp_all add: disease_factor_def duration_factor_def)
  have f: "\<And>v. fever d \<le> v \<Longrightarrow> score_total d \<le> score_total (d\<lparr>fever := v\<rparr>)"
    by (rule score_total_mono) (simp_all add: disease_factor_def duration_factor_def)
  have p: "\<And>v. pain_rank (pain_level d) \<le> pain_rank v \<Longrightarrow>
      score_total d \<le> score_total (d\<lparr>pain_level := v\<rparr>)"
    by (rule score_total_mono) (simp_all add: disease_factor_def duration_factor_def)
  have s: "\<And>v. severity_rank (severity_level d) \<le> severity_rank v \<Longrightarrow>
      score_total d \<le> score_total (d\<lparr>severity_level := v\<rparr>)"
    by (rule score_total_mono) (simp_all add: disease_factor_def duration_factor_def)
  have e: "\<And>v. existing_disease d = None \<or> existing_disease d = Some ''None'' \<Longrightarrow>
      score_total d \<le> score_total (d\<lparr>existing_disease := v\<rparr>)"
    by (rule score_total_mono) (simp_all add: disease_factor_added duration_factor_def)
  from assms show ?thesis
    unfolding raised_by_value_def
    using a [of "age d'"] c [of "chest_pain d'"] b [of "breathlessness d'"] f [of "fever d'"]
      p [of "pain_level d'"] s [of "severity_level d'"] e [of "existing_disease d'"]
    by (elim disjE conjE) simp_all
qed

text \<open>In the number of days the score is antitone: a longer duration never raises it.\<close>

lemma duration_longer_never_raises:
  "symptom_duration_days d \<le> n \<Longrightarrow>
   score_total (d\<lparr>symptom_duration_days := n\<rparr>) \<le> score_total d"
  by (rule score_total_mono)
    (simp_all add: duration_factor_antimono disease_factor_def)

lemma longer_duration_score:
  assumes "longer_duration d d'"
  shows "score_total d' \<le> score_total d"
  using assms duration_longer_never_raises [of d "symptom_duration_days d'"]
  unfolding longer_duration_def by (elim conjE) simp

lemma valid_acute_report: "valid_report acute_report"
  by (simp add: acute_report_def valid_report_def valid_disease_def is_space_def
      is_letter_def)

lemma valid_lingering_report: "valid_report lingering_report"
  by (simp add: lingering_report_def valid_report_def valid_disease_def is_space_def
      is_letter_def)

lemma score_acute_report: "score_total acute_report = 75"
  by (simp add: acute_report_def score_total_def age_factor_def symptom_factor_def
      pain_factor_def severity_factor_def disease_factor_def duration_factor_def truthy_def)

lemma score_lingering_report: "score_total lingering_report = 65"
  by (simp add: lingering_report_def score_total_def age_factor_def symptom_factor_def
      pain_factor_def severity_factor_def disease_factor_def duration_factor_def truthy_def)

lemma lingering_is_longer: "longer_duration acute_report lingering_report"
  by (simp add: longer_duration_def acute_report_def lingering_report_def)

text \<open>
  C3, as stated, fails for the symptom duration. The two reports below are valid and
  differ in the duration only, one day against four days. Moving from the band of at
  most one day to the band of more than three days lowers the score from 75 to 65 and
  the priority from high to medium.
\<close>

theorem longer_duration_lowers_counterexample:
  "valid_report acute_report \<and> valid_report lingering_report
   \<and> lingering_report = acute_report\<lparr>symptom_duration_days := 4\<rparr>
   \<and> symptom_duration_days acute_report = 1
   \<and> score_total acute_report = 75 \<and> predictPriority acute_report = PHigh
   \<and> score_total lingering_report = 65 \<and> predictPriority lingering_report = PMedium
   \<and> score_total lingering_report < score_total acute_report
   \<and> priority_rank (predictPriority lingering_report)
       < priority_rank (predictPriority acute_report)"
proof -
  have "lingering_report = acute_report\<lparr>symptom_duration_days := 4\<rparr>"
    by (simp add: acute_report_def lingering_report_def)
  moreover have "symptom_duration_days acute_report = 1"
    by (simp add: acute_report_def)
  ultimately show ?thesis
    using valid_acute_report valid_lingering_report
    by (simp add: predictPriority_def bucket_def score_acute_report score_lingering_report)
qed

text \<open>
  C3, amended. For valid reports \<open>d\<close> and \<open>d'\<close> that differ in one factor only: when
  that factor is the age, a binary symptom, the pain level or the severity level and
  its value in \<open>d'\<close> is the same or higher (older, symptom added, later in mild,
  moderate, severe or in low, medium, high, critical), or when \<open>d'\<close> has an existing
  disease where \<open>d\<close> has none, the score of \<open>d'\<close> is not below the score of \<open>d\<close> and
  the priority of \<open>d'\<close> is not below the priority of \<open>d\<close> in the order
  low < medium < high. The symptom duration runs the other way: when \<open>d'\<close> has the
  same or a longer duration, its score and its priority are not above those of \<open>d\<close>.
\<close>

theorem factor_monotonicity_by_value:
  assumes "valid_report d" and "valid_report d'"
  shows "(raised_by_value d d' \<longrightarrow>
            score_total d \<le> score_total d'
            \<and> priority_rank (predictPriority d) \<le> priority_rank (predictPriority d'))
       \<and> (longer_duration d d' \<longrightarrow>
            score_total d' \<le> score_total d
            \<and> priority_rank (predictPriority d') \<le> priority_rank (predictPriority d))"
  using raised_by_value_score [of d d'] longer_duration_score [of d d']
  by (simp add: predictPriority_def bucket_mono)

theorem factor_monotonicity_by_value_witness:
  "valid_report scenario2 \<and> valid_report (scenario2\<lparr>pain_level := Severe\<rparr>)
   \<and> raised_by_value scenario2 (scenario2\<lparr>pain_level := Severe\<rparr>)
   \<and> score_total scenario2 \<le> score_total (scenario2\<lparr>pain_level := Severe\<rparr>)
   \<and> priority_rank (predictPriority scenario2)
       \<le> priority_rank (predictPriority (scenario2\<lparr>pain_level := Severe\<rparr>))
   \<and> valid_report acute_report \<and> valid_report lingering_report
   \<and> longer_duration acute_report lingering_report
   \<and> score_total lingering_report \<le> score_total acute_report
   \<and> priority_rank (predictPriority lingering_report)
       \<le> priority_rank (predictPriority acute_report)"
proof -
  have v: "valid_report (scenario2\<lparr>pain_level := Severe\<rparr>)"
    using valid_scenario2 by (simp add: valid_report_def)
  have r: "raised_by_value scenario2 (scenario2\<lparr>pain_level := Severe\<rparr>)"
    by (simp add: raised_by_value_def scenario2_def)
  show ?thesis
    using factor_monotonicity_by_value [OF valid_scenario2 v]
      factor_monotonicity_by_value [OF valid_acute_report valid_lingering_report]
      valid_scenario2 v r valid_acute_report valid_lingering_report lingering_is_longer
    by simp
qed

subsection \<open>Existing disease\<close>

text \<open>
  C4. The existing disease is matched exactly and with case: for every valid report
  whose \<^verbatim>\<open>existing_disease\<close> is the lowercase "heart disease", the disease block adds
  5 points (the band of any other disease), while "Heart Disease" adds 20; the block
  adds 20 only for "Heart Disease", 15 only for "Diabetes" and "Hypertension", and 10
  only for "Asthma".
\<close>

theorem disease_match_is_exact:
  assumes "valid_report d" and "existing_disease d = Some ''heart disease''"
  shows "disease_factor d score = score + 5
     \<and> score_total d = score_total (d\<lparr>existing_disease := None\<rparr>) + 5
     \<and> score_total (d\<lparr>existing_disease := Some ''Heart Disease''\<rparr>)
         = score_total (d\<lparr>existing_disease := None\<rparr>) + 20
     \<and> (disease_factor e score = score + 20
          \<longleftrightarrow> existing_disease e = Some ''Heart Disease'')
     \<and> (disease_factor e score = score + 15
          \<longleftrightarrow> existing_disease e = Some ''Diabetes''
              \<or> existing_disease e = Some ''Hypertension'')
     \<and> (disease_factor e score = score + 10 \<longleftrightarrow> existing_disease e = Some ''Asthma'')"
proof -
  have 1: "disease_factor d score = score + 5"
    using assms(2) by (simp add: disease_factor_def truthy_def)
  have 2: "score_total d = score_total (d\<lparr>existing_disease := None\<rparr>) + 5"
    using assms(2) by (simp add: score_total_disease [of d] disease_factor_def truthy_def)
  have 3: "score_total (d\<lparr>existing_disease := Some ''Heart Disease''\<rparr>)
         = score_total (d\<lparr>existing_disease := None\<rparr>) + 20"
    by (simp add: score_total_disease [of "d\<lparr>existing_disease := Some ''Heart Disease''\<rparr>"]
        disease_factor_def truthy_def)
  have 4: "disease_factor e score = score + 20
          \<longleftrightarrow> existing_disease e = Some ''Heart Disease''"
    by (auto simp add: disease_factor_def truthy_def)
  have 5: "disease_factor e score = score + 15
          \<longleftrightarrow> existing_disease e = Some ''Diabetes''
              \<or> existing_disease e = Some ''Hypertension''"
    by (auto simp add: disease_factor_def truthy_def)
  have 6: "disease_factor e score = score + 10 \<longleftrightarrow> existing_disease e = Some ''Asthma''"
    by (auto simp add: disease_factor_def truthy_def)
  from 1 2 3 4 5 6 show ?thesis by blast
qed

lemma valid_heart_lower:
  "valid_report (scenario2\<lparr>existing_disease := Some ''heart disease''\<rparr>)"
  by (simp add: scenario2_def valid_report_def valid_disease_def trim_def is_space_def
      is_letter_def)

theorem disease_match_is_exact_witness:
  "valid_report (scenario2\<lparr>existing_disease := Some ''heart disease''\<rparr>)
   \<and> existing_disease (scenario2\<lparr>existing_disease := Some ''heart disease''\<rparr>)
       = Some ''heart disease''
   \<and> disease_factor (scenario2\<lparr>existing_disease := Some ''heart disease''\<rparr>) 0 = 5
   \<and> score_total (scenario2\<lparr>existing_disease := Some ''heart disease''\<rparr>) = 15
   \<and> score_total (scenario2\<lparr>existing_disease := Some ''Heart Disease''\<rparr>) = 30"
proof -
  have e: "existing_disease (scenario2\<lparr>existing_disease := Some ''heart disease''\<rparr>)
       = Some ''heart disease''"
    by simp
  have n: "score_total (scenario2\<lparr>existing_disease := None\<rparr>) = 10"
    using score_scenario2 by (simp add: scenario2_def)
  show ?thesis
    using disease_match_is_exact [OF valid_heart_lower e, of 0] valid_heart_lower n
    by simp
qed

text \<open>
  C5. Two reports that differ only in \<^verbatim>\<open>existing_disease\<close>, "None" in one and
  \<^verbatim>\<open>null\<close> in the other, have the same score and the same priority: the disease
  block adds nothing in either. Both are valid together. An empty string is turned
  into \<^verbatim>\<open>null\<close> by the schema, and adds nothing either.
\<close>

theorem none_sentinel_same_as_null:
  "score_total (d\<lparr>existing_disease := Some ''None''\<rparr>)
     = score_total (d\<lparr>existing_disease := None\<rparr>)
   \<and> predictPriority (d\<lparr>existing_disease := Some ''None''\<rparr>)
     = predictPriority (d\<lparr>existing_disease := None\<rparr>)
   \<and> disease_factor (d\<lparr>existing_disease := Some ''None''\<rparr>) score = score
   \<and> disease_factor (d\<lparr>existing_disease := None\<rparr>) score = score
   \<and> disease_factor (d\<lparr>existing_disease := normalize_disease (Some [])\<rparr>) score = score
   \<and> normalize_disease (Some []) = None
   \<and> valid_report (d\<lparr>existing_disease := Some ''None''\<rparr>)
     = valid_report (d\<lparr>existing_disease := None\<rparr>)"
proof -
  have "score_total (d\<lparr>existing_disease := Some ''None''\<rparr>)
     = score_total (d\<lparr>existing_disease := None\<rparr>)"
    by (simp add: score_total_disease [of "d\<lparr>existing_disease := Some ''None''\<rparr>"]
        disease_factor_def)
  moreover have "normalize_disease (Some []) = None"
    by (simp add: normalize_disease_def trim_def)
  moreover have "valid_report (d\<lparr>existing_disease := Some ''None''\<rparr>)
     = valid_report (d\<lparr>existing_disease := None\<rparr>)"
    by (simp add: valid_report_def valid_disease_def trim_def is_space_def)
  ultimately show ?thesis
    by (simp add: predictPriority_def disease_factor_def truthy_def)
qed

subsection \<open>The first scenario\<close>

text \<open>
  C6. For age 75, gender "Male", chest pain and breathlessness but no fever, severe
  pain, one day of symptoms, critical severity and "Heart Disease", the report is valid,
  the score is 170, the priority is high and the action is "Proceed to Emergency Ward
  immediately".
\<close>

theorem scenario1_scores_high:
  "valid_report
     \<lparr>age = 75, gender = ''Male'', chest_pain = True, breathlessness = True, fever = False,
      pain_level = Severe, symptom_duration_days = 1, severity_level = SCritical,
      existing_disease = Some ''Heart Disease''\<rparr>
   \<and> score_total
     \<lparr>age = 75, gender = ''Male'', chest_pain = True, breathlessness = True, fever = False,
      pain_level = Severe, symptom_duration_days = 1, severity_level = SCritical,
      existing_disease = Some ''Heart Disease''\<rparr> = 170
   \<and> predictPriority
     \<lparr>age = 75, gender = ''Male'', chest_pain = True, breathlessness = True, fever = False,
      pain_level = Severe, symptom_duration_days = 1, severity_level = SCritical,
      existing_disease = Some ''Heart Disease''\<rparr> = PHigh
   \<and> getActionMessage (predictPriority
     \<lparr>age = 75, gender = ''Male'', chest_pain = True, breathlessness = True, fever = False,
      pain_level = Severe, symptom_duration_days = 1, severity_level = SCritical,
      existing_disease = Some ''Heart Disease''\<rparr>) = ''Proceed to Emergency Ward immediately''"
  using valid_scenario1 score_scenario1
  by (simp add: scenario1_def predictPriority_def bucket_def)

subsection \<open>Messages\<close>

text \<open>
  C7. \<^verbatim>\<open>getActionMessage\<close> is the fixed table: "Proceed to Emergency Ward immediately"
  for high, "Consult a doctor today" for medium, "OPD visit can be scheduled later" for
  low; every priority has one of these three sentences.
\<close>

theorem action_table:
  "getActionMessage PHigh = ''Proceed to Emergency Ward immediately''
   \<and> getActionMessage PMedium = ''Consult a doctor today''
   \<and> getActionMessage PLow = ''OPD visit can be scheduled later''
   \<and> getActionMessage p \<in>
       {''Proceed to Emergency Ward immediately'', ''Consult a doctor today'',
        ''OPD visit can be scheduled later''}"
  by (cases p) simp_all

lemma toUpperCase_priority: "toUpperCase (priority_string p) = upper_name p"
  by (cases p) (simp_all add: toUpperCase_def char_of_def bit_Suc_0_iff)

text \<open>
  C8. For every priority and token, the notification is the eleven lines of the fixed
  layout joined by line feeds: the greeting, the assessment with the priority in upper
  case, the token line, the action sentence with a full stop, the thanks and the
  signature, with an empty line between each two. For low and "T-0042" it is the text
  with "LOW", "T-0042" and the low-priority action.
\<close>

theorem notification_layout:
  "getNotificationMessage priority token = join_lines (notification_lines priority token)
   \<and> notification_lines PLow ''T-0042'' =
       [''Dear Patient,'', [], ''Your condition has been assessed as LOW priority.'', [],
        ''Token Number: T-0042'', [], ''OPD visit can be scheduled later.'', [],
        ''Thank you for using HealNav.'', [],
        [CHR 0xE2, CHR 0x80, CHR 0x93] @ '' HealNav - Smart Care Patient Priority System'']
   \<and> getNotificationMessage PLow ''T-0042'' =
       ''Dear Patient,\<newline>\<newline>Your condition has been assessed as LOW priority.\<newline>\<newline>Token Number: T-0042\<newline>\<newline>OPD visit can be scheduled later.\<newline>\<newline>Thank you for using HealNav.\<newline>\<newline>''
       @ [CHR 0xE2, CHR 0x80, CHR 0x93] @ '' HealNav - Smart Care Patient Priority System''"
proof -
  have g: "getNotificationMessage p t = join_lines (notification_lines p t)" for p t
    unfolding getNotificationMessage_def Let_def toUpperCase_priority
    by (simp add: join_lines_def notification_lines_def)
  have l: "notification_lines PLow ''T-0042'' =
       [''Dear Patient,'', [], ''Your condition has been assessed as LOW priority.'', [],
        ''Token Number: T-0042'', [], ''OPD visit can be scheduled later.'', [],
        ''Thank you for using HealNav.'', [],
        [CHR 0xE2, CHR 0x80, CHR 0x93] @ '' HealNav - Smart Care Patient Priority System'']"
    by (simp add: notification_lines_def en_dash_def)
  have "getNotificationMessage PLow ''T-0042'' =
       ''Dear Patient,\<newline>\<newline>Your condition has been assessed as LOW priority.\<newline>\<newline>Token Number: T-0042\<newline>\<newline>OPD visit can be scheduled later.\<newline>\<newline>Thank you for using HealNav.\<newline>\<newline>''
       @ [CHR 0xE2, CHR 0x80, CHR 0x93] @ '' HealNav - Smart Care Patient Priority System''"
    unfolding g l by (simp add: join_lines_def)
  with g l show ?thesis by simp
qed

subsection \<open>Error responses\<close>

lemma safe_messages_no_digit: "m \<in> safe_messages \<Longrightarrow> list_all (\<lambda>c. \<not> is_digit c) m"
  unfolding safe_messages_def by (auto simp: is_digit_def)

lemma mapError_message_safe: "message (mapErrorToSafeResponse error) \<in> safe_messages"
  by (simp add: mapErrorToSafeResponse_def safe_messages_def
      split: thrown.split option.split)

lemma mapError_status: "status (mapErrorToSafeResponse error) \<in> {400, 409, 500}"
  by (simp add: mapErrorToSafeResponse_def split: thrown.split option.split)

text \<open>
  C9. The error mapping returns a fixed message and status for each kind of error,
  whatever the error carries: a validation error gives the invalid-input message with
  400, code "23505" the record-exists message with 409, code "23503" a message with
  400, any other code and any other error a message with 500. For every error the
  message is one of five literals, the status is 400, 409 or 500, and the message holds
  no digit, so no error code. A failed validation in the handler is answered with 400
  and a literal message.
\<close>

theorem error_mapping_is_generic:
  "mapErrorToSafeResponse (ZodError detail) =
     \<lparr>message = ''Invalid input data provided. Please check your submission.'',
      status = 400\<rparr>
   \<and> mapErrorToSafeResponse (ErrorObject (Some (CodeString ''23505'')) detail) =
     \<lparr>message = ''A record with this information already exists'', status = 409\<rparr>
   \<and> mapErrorToSafeResponse (ErrorObject (Some (CodeString ''23503'')) detail) =
     \<lparr>message = ''Referenced record not found'', status = 400\<rparr>
   \<and> (code \<noteq> CodeString ''23505'' \<and> code \<noteq> CodeString ''23503'' \<longrightarrow>
       mapErrorToSafeResponse (ErrorObject (Some code) detail) =
         \<lparr>message = ''Unable to save patient information. Please try again.'',
          status = 500\<rparr>)
   \<and> mapErrorToSafeResponse (ErrorObject None detail) =
     \<lparr>message = ''An error occurred while processing your request'', status = 500\<rparr>
   \<and> mapErrorToSafeResponse (NonObject detail) =
     \<lparr>message = ''An error occurred while processing your request'', status = 500\<rparr>
   \<and> message (mapErrorToSafeResponse error) \<in> safe_messages
   \<and> status (mapErrorToSafeResponse error) \<in> {400, 409, 500}
   \<and> list_all (\<lambda>c. \<not> is_digit c) (message (mapErrorToSafeResponse error))
   \<and> serve False (Inr None) token inserted =
     \<lparr>http_status = 400,
      body = ErrorBody ''Invalid input data. Please check your submission and try again.''\<rparr>"
proof -
  have "list_all (\<lambda>c. \<not> is_digit c) (message (mapErrorToSafeResponse error))"
    by (rule safe_messages_no_digit) (rule mapError_message_safe)
  then show ?thesis
    using mapError_message_safe [of error] mapError_status [of error]
    by (simp add: mapErrorToSafeResponse_def serve_def)
qed

theorem error_mapping_is_generic_witness:
  "CodeString ''42P01'' \<noteq> CodeString ''23505'' \<and> CodeString ''42P01'' \<noteq> CodeString ''23503''
   \<and> mapErrorToSafeResponse
        (ErrorObject (Some (CodeString ''42P01'')) ''relation patients does not exist'') =
      \<lparr>message = ''Unable to save patient information. Please try again.'', status = 500\<rparr>"
  using error_mapping_is_generic
    [of "''relation patients does not exist''" "CodeString ''42P01''"]
  by simp

text \<open>
  Every response of the handler that is not a success carries one of the literal
  messages.
\<close>

lemma serve_error_body_generic:
  assumes "http_status (serve is_options parsed token inserted) \<noteq> 200"
  shows "\<exists>m. body (serve is_options parsed token inserted) = ErrorBody m
           \<and> list_all (\<lambda>c. \<not> is_digit c) m
           \<and> (m \<in> safe_messages
               \<or> m = ''Invalid input data. Please check your submission and try again.'')"
  using assms mapError_message_safe safe_messages_no_digit [OF mapError_message_safe]
  by (auto simp: serve_def catch_response_def Let_def is_digit_def
      split: if_splits sum.splits option.splits)

subsection \<open>Range of the score\<close>

lemma age_factor_range:
  "0 \<le> age_factor d 0 \<and> age_factor d 0 \<le> 25 \<and> 5 dvd age_factor d 0"
  by (simp add: age_factor_def)

lemma symptom_factor_range:
  "0 \<le> symptom_factor d 0 \<and> symptom_factor d 0 \<le> 65 \<and> 5 dvd symptom_factor d 0"
  by (simp add: symptom_factor_def Let_def)

lemma pain_factor_range:
  "5 \<le> pain_factor d 0 \<and> pain_factor d 0 \<le> 25 \<and> 5 dvd pain_factor d 0"
  by (simp add: pain_factor_def)

lemma severity_factor_range:
  "5 \<le> severity_factor d 0 \<and> severity_factor d 0 \<le> 35 \<and> 5 dvd severity_factor d 0"
  by (simp add: severity_factor_def)

lemma disease_factor_range:
  "0 \<le> disease_factor d 0 \<and> disease_factor d 0 \<le> 20 \<and> 5 dvd disease_factor d 0"
  by (simp add: disease_factor_def)

lemma duration_factor_range:
  "0 \<le> duration_factor d 0 \<and> duration_factor d 0 \<le> 10 \<and> 5 dvd duration_factor d 0"
  by (simp add: duration_factor_def)

lemma score_total_bounds: "10 \<le> score_total d \<and> score_total d \<le> 180"
  using age_factor_range [of d] symptom_factor_range [of d] pain_factor_range [of d]
    severity_factor_range [of d] disease_factor_range [of d] duration_factor_range [of d]
  by (simp add: score_total_sum)

lemma score_total_dvd: "5 dvd score_total d"
  using age_factor_range [of d] symptom_factor_range [of d] pain_factor_range [of d]
    severity_factor_range [of d] disease_factor_range [of d] duration_factor_range [of d]
  by (simp add: score_total_sum)

text \<open>
  C10. For every valid report the score is a multiple of 5 between 10 and 180, so it is
  never 74 and never 44. Both bounds are reached by valid reports: 10 by the second
  scenario, where only the pain and severity blocks add their least points, and 180
  by a report in the top band of every factor.
\<close>

theorem score_total_range:
  "(valid_report d \<longrightarrow>
      5 dvd score_total d \<and> 10 \<le> score_total d \<and> score_total d \<le> 180
      \<and> score_total d \<noteq> 74 \<and> score_total d \<noteq> 44)
   \<and> valid_report scenario2 \<and> score_total scenario2 = 10
   \<and> valid_report top_report \<and> score_total top_report = 180"
proof -
  have "score_total d \<noteq> 74" and "score_total d \<noteq> 44"
    using score_total_dvd [of d] by auto
  then show ?thesis
    using score_total_dvd [of d] score_total_bounds [of d]
    by (simp add: valid_scenario2 score_scenario2 valid_top_report score_top_report)
qed

theorem score_total_range_witness:
  "valid_report scenario1 \<and> 5 dvd score_total scenario1 \<and> 10 \<le> score_total scenario1
   \<and> score_total scenario1 \<le> 180 \<and> score_total scenario1 \<noteq> 74
   \<and> score_total scenario1 \<noteq> 44"
  using score_total_range [of scenario1] valid_scenario1 by simp

end
